theory Spec2Isabelle
  imports Main
begin

section \<open>The IAM construct of the Firewall Manager automations\<close>

text \<open>
  The source is \<^verbatim>\<open>source/resources/lib/iam.ts\<close>: the constructor of
  \<^verbatim>\<open>IAMConstruct\<close> creates two policies (\<^verbatim>\<open>FMSPolicyRead\<close>,
  \<^verbatim>\<open>FMSPolicyWrite\<close>), builds eleven policy statements \<^verbatim>\<open>po0\<close> ...
  \<^verbatim>\<open>po10\<close>, adds each to one of the two policies, and finally assigns the
  cfn_nag metadata of both. The constructor first calls \<^verbatim>\<open>super(scope, id)\<close>,
  the constructor of the CDK's \<^verbatim>\<open>Construct\<close>, which registers the new construct
  under the scope and can throw. What follows that call is straight-line code: it
  has no branch, no loop, no \<^verbatim>\<open>throw\<close> and reads nothing but \<^verbatim>\<open>props\<close>.
\<close>

subsection \<open>Data of aws-iam and aws-s3, as far as the construct touches it\<close>

datatype Effect = ALLOW | DENY

text \<open>
  The \<^verbatim>\<open>conditions\<close> object of a statement: operator, then condition key, then
  value. The property is optional, hence the option in the record below.
\<close>

type_synonym Conditions = "(string \<times> (string \<times> string) list) list"

record PolicyStatement =
  effect :: Effect
  sid :: string
  actions :: "string list"
  resources :: "string list"
  conditions :: "Conditions option"

record Bucket =
  bucketArn :: string

record IRole =
  roleArn :: string

text \<open>The interface \<^verbatim>\<open>IIam\<close>: every property is required and, apart from the role
  and the bucket, is a string.\<close>

record IIam =
  policyTable :: string
  logGroup :: string
  sqs :: string
  role :: IRole
  accountId :: string
  region :: string
  metricsQueue :: string
  regionParamArn :: string
  ouParamArn :: string
  tagParamArn :: string
  s3Bucket :: Bucket

text \<open>One entry of \<^verbatim>\<open>cfn_nag.rules_to_suppress\<close>; the source calls the first
  property \<^verbatim>\<open>id\<close>.\<close>

record NagRule =
  rule_id :: string
  reason :: string

text \<open>
  A policy: its construct id, the roles it is attached to, the statements of its
  document and the \<^verbatim>\<open>rules_to_suppress\<close> of the metadata of its
  \<^verbatim>\<open>Resource\<close> child (no metadata is the empty list).
\<close>

record Policy =
  policy_id :: string
  roles :: "IRole list"
  statements :: "PolicyStatement list"
  rules_to_suppress :: "NagRule list"

text \<open>The construct once \<^verbatim>\<open>super(scope, id)\<close> has returned: the scope it stands
  under, the id it has there, and its two policies.\<close>

record 'scope IAMConstruct_node =
  node_scope :: 'scope
  node_id :: string
  readPolicy :: Policy
  writePolicy :: Policy

subsection \<open>Operations on a policy\<close>

text \<open>\<^verbatim>\<open>new Policy(this, id, { roles })\<close>: a policy with an empty document.\<close>

definition new_Policy :: "string \<Rightarrow> IRole list \<Rightarrow> Policy" where
  "new_Policy i rs = \<lparr>policy_id = i, roles = rs, statements = [], rules_to_suppress = []\<rparr>"

text \<open>\<^verbatim>\<open>policy.addStatements(...statement)\<close> appends to the document.\<close>

definition addStatements :: "Policy \<Rightarrow> PolicyStatement list \<Rightarrow> Policy" where
  "addStatements p sts = p\<lparr>statements := statements p @ sts\<rparr>"

text \<open>The assignment to \<^verbatim>\<open>cfnOptions.metadata\<close> replaces the metadata.\<close>

definition set_metadata :: "Policy \<Rightarrow> NagRule list \<Rightarrow> Policy" where
  "set_metadata p rules = p\<lparr>rules_to_suppress := rules\<rparr>"

subsection \<open>The eleven statements\<close>

definition po0 :: PolicyStatement where
  "po0 = \<lparr>effect = ALLOW, sid = ''EC2Read0'',
     actions = [''ec2:DescribeRegions''],
     resources = [''*''],
     conditions = None\<rparr>"

definition po1 :: "IIam \<Rightarrow> PolicyStatement" where
  "po1 props = \<lparr>effect = ALLOW, sid = ''DDBWrite01'',
     actions = [''dynamodb:GetItem'', ''dynamodb:UpdateItem'', ''dynamodb:DeleteItem''],
     resources = [''arn:aws:dynamodb:'' @ region props @ '':'' @ accountId props
                    @ '':table/'' @ policyTable props],
     conditions = None\<rparr>"

definition po2 :: PolicyStatement where
  "po2 = \<lparr>effect = ALLOW, sid = ''FMSWrite021'',
     actions = [''fms:PutPolicy'', ''fms:DeletePolicy''],
     resources = [''arn:aws:fms:*:*:policy/*''],
     conditions = None\<rparr>"

definition po3 :: "IIam \<Rightarrow> PolicyStatement" where
  "po3 props = \<lparr>effect = ALLOW, sid = ''CloudWatchLogsWrite03'',
     actions = [''logs:CreateLogStream'', ''logs:PutLogEvents'', ''logs:CreateLogGroup''],
     resources = [logGroup props],
     conditions = None\<rparr>"

definition po4 :: "IIam \<Rightarrow> PolicyStatement" where
  "po4 props = \<lparr>effect = ALLOW, sid = ''SQSWrite04'',
     actions = [''sqs:SendMessage''],
     resources = [sqs props,
                  ''arn:aws:sqs:'' @ region props @ '':'' @ accountId props
                    @ '':'' @ metricsQueue props],
     conditions = None\<rparr>"

definition po5 :: "IIam \<Rightarrow> PolicyStatement" where
  "po5 props = \<lparr>effect = ALLOW, sid = ''SSMRead05'',
     actions = [''ssm:GetParameter''],
     resources = [regionParamArn props, ouParamArn props, tagParamArn props],
     conditions = None\<rparr>"

definition po6 :: "IIam \<Rightarrow> PolicyStatement" where
  "po6 props = \<lparr>effect = ALLOW, sid = ''S3Read06'',
     actions = [''s3:GetObject''],
     resources = [bucketArn (s3Bucket props), bucketArn (s3Bucket props) @ ''/*''],
     conditions = None\<rparr>"

definition po7 :: PolicyStatement where
  "po7 = \<lparr>effect = ALLOW, sid = ''WAFWrite07'',
     actions = [''wafv2:*'', ''shield:GetSubscriptionState''],
     resources = [''*''],
     conditions = None\<rparr>"

definition po8 :: PolicyStatement where
  "po8 = \<lparr>effect = ALLOW, sid = ''DNSWrite08'',
     actions = [''route53resolver:CreateFirewallRule'',
                ''route53resolver:CreateFirewallRuleGroup'',
                ''route53resolver:DeleteFirewallRuleGroup'',
                ''route53resolver:ListFirewallRules'',
                ''route53resolver:DeleteFirewallRule'',
                ''route53resolver:GetFirewallRuleGroup''],
     resources = [''*''],
     conditions = None\<rparr>"

definition po9 :: PolicyStatement where
  "po9 = \<lparr>effect = ALLOW, sid = ''RAMWrite09'',
     actions = [''ram:DeleteResourceShare''],
     resources = [''*''],
     conditions = Some [(''StringEquals'', [(''aws:ResourceTag/FMManaged'', ''true'')])]\<rparr>"

definition po10 :: PolicyStatement where
  "po10 = \<lparr>effect = ALLOW, sid = ''DNSRAMRead10'',
     actions = [''route53resolver:ListFirewallDomainLists'',
                ''route53resolver:ListFirewallRuleGroups'',
                ''ram:ListResources''],
     resources = [''*''],
     conditions = None\<rparr>"

subsection \<open>The cfn_nag suppressions\<close>

definition read_rules_to_suppress :: "NagRule list" where
  "read_rules_to_suppress =
     [\<lparr>rule_id = ''W12'',
       reason = ''* needed for [ec2:DescribeRegions, route53resolver:ListFirewallDomainLists, route53resolver:ListFirewallRuleGroups, ram:ListResources], does no support resource level permissions''\<rparr>]"

definition write_rules_to_suppress :: "NagRule list" where
  "write_rules_to_suppress =
     [\<lparr>rule_id = ''W12'',
       reason = ''* resource used for fms and route53resolver actions, resources are created/deleted as part of solution''\<rparr>,
      \<lparr>rule_id = ''F4'',
       reason = ''Read & Write permissions needed to create WAFv2 policies''\<rparr>]"

subsection \<open>The constructor\<close>

text \<open>
  The body of the constructor after \<^verbatim>\<open>super(scope, id)\<close> has returned, in the
  order of the source; every mutation of a policy is a new binding of the policy.
  Here \<open>scope\<close> and \<open>ident\<close> are the scope and the id of the construct as
  \<^verbatim>\<open>super\<close> has set them.
\<close>

definition IAMConstruct :: "'scope \<Rightarrow> string \<Rightarrow> IIam \<Rightarrow> 'scope IAMConstruct_node" where
  "IAMConstruct scope ident props =
    (let readPolicy0 = new_Policy ''FMSPolicyRead'' [role props];
         writePolicy0 = new_Policy ''FMSPolicyWrite'' [role props];
         readPolicy1 = addStatements readPolicy0 [po0];
         writePolicy1 = addStatements writePolicy0 [po1 props];
         writePolicy2 = addStatements writePolicy1 [po2];
         writePolicy3 = addStatements writePolicy2 [po3 props];
         writePolicy4 = addStatements writePolicy3 [po4 props];
         readPolicy2 = addStatements readPolicy1 [po5 props];
         readPolicy3 = addStatements readPolicy2 [po6 props];
         writePolicy5 = addStatements writePolicy4 [po7];
         writePolicy6 = addStatements writePolicy5 [po8];
         writePolicy7 = addStatements writePolicy6 [po9];
         readPolicy4 = addStatements readPolicy3 [po10];
         readPolicy5 = set_metadata readPolicy4 read_rules_to_suppress;
         writePolicy8 = set_metadata writePolicy7 write_rules_to_suppress
     in \<lparr>node_scope = scope, node_id = ident,
         readPolicy = readPolicy5, writePolicy = writePolicy8\<rparr>)"

subsection \<open>The call of the constructor\<close>

text \<open>
  \<^verbatim>\<open>new IAMConstruct(scope, id, props)\<close>: first \<^verbatim>\<open>super(scope, id)\<close>, then the
  body. The constructor of \<^verbatim>\<open>Construct\<close> belongs to the CDK and not to the source,
  so it is a parameter here: for a scope and an id it either throws an error, or
  returns the scope with the new construct registered in it and the id the
  construct has got. An error of \<^verbatim>\<open>super\<close> ends the constructor: no policy is
  created. The scope is state: the call returns the scope as it is afterwards.
\<close>

definition new_IAMConstruct ::
  "('scope \<Rightarrow> string \<Rightarrow> 'err + 'scope \<times> string) \<Rightarrow> 'scope \<Rightarrow> string \<Rightarrow> IIam
     \<Rightarrow> 'err + 'scope \<times> 'scope IAMConstruct_node" where
  "new_IAMConstruct super_ctor scope ident props =
     (case super_ctor scope ident of
        Inl e \<Rightarrow> Inl e
      | Inr (scope', ident') \<Rightarrow> Inr (scope', IAMConstruct scope' ident' props))"

subsection \<open>The scope as the CDK keeps it\<close>

text \<open>
  What the constructor of the CDK's \<^verbatim>\<open>Construct\<close> does with a scope and an id, as
  far as it depends on the two: a scope holds the ids of its children; an empty id
  is refused (only a root construct may have an empty name); every \<^verbatim>\<open>/\<close> of the
  id is replaced by \<^verbatim>\<open>--\<close>; an id that a child of the scope has already is
  refused; otherwise the id is added to the children of the scope. Its other
  refusals (an id that holds an unresolved token, a scope locked during synthesis)
  are left out; the general statements below hold for any \<^verbatim>\<open>super\<close>, and this
  one serves the concrete inputs.
\<close>

record Scope =
  children :: "string list"

datatype ConstructError = EmptyName | NameInUse string

definition sanitizeId :: "string \<Rightarrow> string" where
  "sanitizeId i = concat (map (\<lambda>c. if c = CHR ''/'' then ''--'' else [c]) i)"

definition cdk_super :: "Scope \<Rightarrow> string \<Rightarrow> ConstructError + Scope \<times> string" where
  "cdk_super scope ident =
     (if ident = [] then Inl EmptyName
      else if sanitizeId ident \<in> set (children scope) then Inl (NameInUse (sanitizeId ident))
      else Inr (scope\<lparr>children := children scope @ [sanitizeId ident]\<rparr>, sanitizeId ident))"

section \<open>Notions the properties are stated with\<close>

subsection \<open>Access class and sid\<close>

text \<open>
  The source stores no access class on a statement. A statement is tied to a
  class in two ways: by the policy its \<^verbatim>\<open>addStatements\<close> call targets, and by the
  word \<^verbatim>\<open>Read\<close> or \<^verbatim>\<open>Write\<close> that its sid carries before the trailing digits.
  The second is read off the sid here.
\<close>

datatype AccessClass = READ | WRITE

definition is_digit :: "char \<Rightarrow> bool" where
  "is_digit c = (c \<in> set ''0123456789'')"

definition digit_value :: "char \<Rightarrow> nat" where
  "digit_value c = length (takeWhile (\<lambda>d. d \<noteq> c) ''0123456789'')"

definition decimal :: "string \<Rightarrow> nat" where
  "decimal ds = foldl (\<lambda>n c. 10 * n + digit_value c) 0 ds"

text \<open>The trailing digits of a sid, and what stands before them.\<close>

definition sid_suffix :: "string \<Rightarrow> string" where
  "sid_suffix s = rev (takeWhile is_digit (rev s))"

definition sid_stem :: "string \<Rightarrow> string" where
  "sid_stem s = rev (dropWhile is_digit (rev s))"

definition sid_index :: "string \<Rightarrow> nat" where
  "sid_index s = decimal (sid_suffix s)"

definition ends_with :: "string \<Rightarrow> string \<Rightarrow> bool" where
  "ends_with s w = (length w \<le> length s \<and> drop (length s - length w) s = w)"

definition accessClass :: "PolicyStatement \<Rightarrow> AccessClass option" where
  "accessClass s =
     (if ends_with (sid_stem (sid s)) ''Read'' then Some READ
      else if ends_with (sid_stem (sid s)) ''Write'' then Some WRITE
      else None)"

definition document :: "AccessClass \<Rightarrow> 'scope IAMConstruct_node \<Rightarrow> Policy" where
  "document c n = (case c of READ \<Rightarrow> readPolicy n | WRITE \<Rightarrow> writePolicy n)"

definition other_class :: "AccessClass \<Rightarrow> AccessClass" where
  "other_class c = (case c of READ \<Rightarrow> WRITE | WRITE \<Rightarrow> READ)"

text \<open>The grants: the eleven statements in the order the constructor builds them.\<close>

definition grants :: "IIam \<Rightarrow> PolicyStatement list" where
  "grants props =
     [po0, po1 props, po2, po3 props, po4 props, po5 props, po6 props, po7, po8, po9, po10]"

text \<open>Numbering without gaps: each number is the successor of the one before.\<close>

fun no_gaps :: "nat list \<Rightarrow> bool" where
  "no_gaps [] = True"
| "no_gaps [x] = True"
| "no_gaps (x # y # ys) = (y = Suc x \<and> no_gaps (y # ys))"

subsection \<open>Wildcards, suppressions and what a document is\<close>

definition has_wildcard_resource :: "PolicyStatement \<Rightarrow> bool" where
  "has_wildcard_resource s = (''*'' \<in> set (resources s))"

text \<open>
  The wildcard-justification law as the specification words it, for a policy and
  an assignment \<open>J\<close> of a justification to each grant (a grant is named by its
  sid; the empty string is no justification): a statement has the resource
  \<^verbatim>\<open>*\<close> exactly when its grant has a justification and that justification is the
  reason of one of the policy's suppressions.
\<close>

definition wildcard_justification_law :: "(string \<Rightarrow> string) \<Rightarrow> Policy \<Rightarrow> bool" where
  "wildcard_justification_law J pol =
     (\<forall>s \<in> set (statements pol).
        has_wildcard_resource s =
          (J (sid s) \<noteq> [] \<and> J (sid s) \<in> set (map reason (rules_to_suppress pol))))"


text \<open>The identifiers of the properties: everything but the role.\<close>

definition identifiers :: "IIam \<Rightarrow> string list" where
  "identifiers props =
     [policyTable props, logGroup props, sqs props, accountId props, region props,
      metricsQueue props, regionParamArn props, ouParamArn props, tagParamArn props,
      bucketArn (s3Bucket props)]"

text \<open>The two policy documents with their suppressions, READ first.\<close>

definition documents ::
  "'scope IAMConstruct_node \<Rightarrow>
     (PolicyStatement list \<times> NagRule list) \<times> (PolicyStatement list \<times> NagRule list)" where
  "documents n =
     ((statements (readPolicy n), rules_to_suppress (readPolicy n)),
      (statements (writePolicy n), rules_to_suppress (writePolicy n)))"

text \<open>A statement without its resources.\<close>

definition without_resources :: "PolicyStatement \<Rightarrow> PolicyStatement" where
  "without_resources s = s\<lparr>resources := []\<rparr>"

subsection \<open>Sample inputs\<close>

definition example_props :: IIam where
  "example_props =
     \<lparr>policyTable = ''FMS-Policy-Table'',
      logGroup = ''arn:aws:logs:us-east-1:111122223333:log-group:fms'',
      sqs = ''arn:aws:sqs:us-east-1:111122223333:dlq'',
      role = \<lparr>roleArn = ''arn:aws:iam::111122223333:role/PolicyManager''\<rparr>,
      accountId = ''111122223333'',
      region = ''us-east-1'',
      metricsQueue = ''metrics'',
      regionParamArn = ''arn:aws:ssm:us-east-1:111122223333:parameter/FMS/Regions'',
      ouParamArn = ''arn:aws:ssm:us-east-1:111122223333:parameter/FMS/OUs'',
      tagParamArn = ''arn:aws:ssm:us-east-1:111122223333:parameter/FMS/Tags'',
      s3Bucket = \<lparr>bucketArn = ''arn:aws:s3:::fms-manifest''\<rparr>\<rparr>"

text \<open>The same deployment with the log group given as \<^verbatim>\<open>*\<close>.\<close>

definition wildcard_log_props :: IIam where
  "wildcard_log_props = example_props\<lparr>logGroup := ''*''\<rparr>"

text \<open>A stack without children, and the same stack once a construct with the id
  \<^verbatim>\<open>IAM\<close> stands under it.\<close>

definition root_scope :: Scope where
  "root_scope = \<lparr>children = []\<rparr>"

definition iam_scope :: Scope where
  "iam_scope = \<lparr>children = [''IAM'']\<rparr>"

text \<open>The sample deployment under another role.\<close>

definition other_role_props :: IIam where
  "other_role_props =
     example_props\<lparr>role := \<lparr>roleArn = ''arn:aws:iam::111122223333:role/Other''\<rparr>\<rparr>"

section \<open>Basic facts about the constructed policies\<close>

lemma read_statements:
  "statements (readPolicy (IAMConstruct scope ident props)) = [po0, po5 props, po6 props, po10]"
  by (simp add: IAMConstruct_def Let_def new_Policy_def addStatements_def set_metadata_def)

lemma write_statements:
  "statements (writePolicy (IAMConstruct scope ident props)) =
     [po1 props, po2, po3 props, po4 props, po7, po8, po9]"
  by (simp add: IAMConstruct_def Let_def new_Policy_def addStatements_def set_metadata_def)

lemma read_rules:
  "rules_to_suppress (readPolicy (IAMConstruct scope ident props)) = read_rules_to_suppress"
  by (simp add: IAMConstruct_def Let_def new_Policy_def addStatements_def set_metadata_def)

lemma write_rules:
  "rules_to_suppress (writePolicy (IAMConstruct scope ident props)) = write_rules_to_suppress"
  by (simp add: IAMConstruct_def Let_def new_Policy_def addStatements_def set_metadata_def)

lemmas po_defs =
  po0_def po1_def po2_def po3_def po4_def po5_def po6_def po7_def po8_def po9_def po10_def

text \<open>The number and the class word of every sid, in the order of the source.\<close>

lemma grants_index:
  "map (sid_index \<circ> sid) (grants props) = [0, 1, 21, 3, 4, 5, 6, 7, 8, 9, 10]"
  by (simp add: grants_def po_defs sid_index_def sid_suffix_def is_digit_def decimal_def
        digit_value_def)

lemma grants_class:
  "map accessClass (grants props) =
     [Some READ, Some WRITE, Some WRITE, Some WRITE, Some WRITE, Some READ, Some READ,
      Some WRITE, Some WRITE, Some WRITE, Some READ]"
  by (simp add: grants_def po_defs accessClass_def sid_stem_def is_digit_def ends_with_def)

text \<open>The call of the constructor fails exactly when \<^verbatim>\<open>super\<close> fails, and what it
  returns is the body's construct under the scope and id of \<^verbatim>\<open>super\<close>.\<close>

lemma new_IAMConstruct_Inl:
  "(new_IAMConstruct super_ctor scope ident props = Inl e) = (super_ctor scope ident = Inl e)"
  by (simp add: new_IAMConstruct_def split: sum.splits prod.splits)

lemma new_IAMConstruct_Inr:
  "(new_IAMConstruct super_ctor scope ident props = Inr (sc, N)) =
     (\<exists>i. super_ctor scope ident = Inr (sc, i) \<and> N = IAMConstruct sc i props)"
  by (auto simp add: new_IAMConstruct_def split: sum.splits prod.splits)

lemma cdk_super_root: "cdk_super root_scope ''IAM'' = Inr (iam_scope, ''IAM'')"
  by (simp add: cdk_super_def root_scope_def iam_scope_def sanitizeId_def)

lemma cdk_super_again: "cdk_super iam_scope ''IAM'' = Inl (NameInUse ''IAM'')"
  by (simp add: cdk_super_def iam_scope_def sanitizeId_def)

lemma new_IAMConstruct_root:
  "new_IAMConstruct cdk_super root_scope ''IAM'' props =
     Inr (iam_scope, IAMConstruct iam_scope ''IAM'' props)"
  by (simp add: new_IAMConstruct_def cdk_super_root)

lemma documents_of_body:
  "identifiers props = identifiers props' \<Longrightarrow>
     documents (IAMConstruct scope ident props) = documents (IAMConstruct scope' ident' props')"
  by (simp add: documents_def identifiers_def read_statements write_statements read_rules
        write_rules po_defs)

section \<open>Suppressions and wildcard resources\<close>

text \<open>
  C1, as the specification states it, fails. The justification of a grant belongs
  to the grant, so it is the same whatever identifiers are supplied; the
  suppressions are the same too. The resources of the CloudWatch Logs statement
  are the supplied log group, which is \<^verbatim>\<open>*\<close> for one input and an ARN for the
  other. So no assignment of justifications makes the law hold for both inputs.
\<close>

theorem wildcard_justification_counterexample:
  "\<not> (\<exists>J. wildcard_justification_law J
               (writePolicy (IAMConstruct ''FMSStack'' ''IAM'' example_props))
          \<and> wildcard_justification_law J
               (writePolicy (IAMConstruct ''FMSStack'' ''IAM'' wildcard_log_props)))"
proof
  let ?A = "writePolicy (IAMConstruct ''FMSStack'' ''IAM'' example_props)"
  let ?B = "writePolicy (IAMConstruct ''FMSStack'' ''IAM'' wildcard_log_props)"
  assume "\<exists>J. wildcard_justification_law J ?A \<and> wildcard_justification_law J ?B"
  then obtain J where a: "wildcard_justification_law J ?A"
    and b: "wildcard_justification_law J ?B"
    by blast
  let ?j = "J ''CloudWatchLogsWrite03''"
  have ma: "po3 example_props \<in> set (statements ?A)"
    and mb: "po3 wildcard_log_props \<in> set (statements ?B)"
    by (simp_all add: write_statements)
  have ra: "map reason (rules_to_suppress ?A) = map reason write_rules_to_suppress"
    and rb: "map reason (rules_to_suppress ?B) = map reason write_rules_to_suppress"
    by (simp_all add: write_rules)
  have na: "\<not> has_wildcard_resource (po3 example_props)"
    by (simp add: has_wildcard_resource_def po3_def example_props_def)
  have wb: "has_wildcard_resource (po3 wildcard_log_props)"
    by (simp add: has_wildcard_resource_def po3_def wildcard_log_props_def)
  have sa: "sid (po3 example_props) = ''CloudWatchLogsWrite03''"
    and sb: "sid (po3 wildcard_log_props) = ''CloudWatchLogsWrite03''"
    by (simp_all add: po3_def)
  from a ma na sa ra
  have "\<not> (?j \<noteq> [] \<and> ?j \<in> set (map reason write_rules_to_suppress))"
    unfolding wildcard_justification_law_def by metis
  moreover from b mb wb sb rb
  have "?j \<noteq> [] \<and> ?j \<in> set (map reason write_rules_to_suppress)"
    unfolding wildcard_justification_law_def by metis
  ultimately show False by blast
qed

text \<open>
  C1, amended. The suppressions of a document are fixed by the source and depend
  neither on the statements nor on the identifiers: the READ document has exactly
  one pair, with rule W12, and the WRITE document has a W12 pair followed by an F4
  pair, all with a non-empty reason. There is one W12 pair per document, not one
  per statement with a wildcard resource. When none of the identifiers that are
  used as a resource on their own is \<^verbatim>\<open>*\<close>, the statements whose resources contain
  \<^verbatim>\<open>*\<close> are EC2Read0 and DNSRAMRead10 in the READ document and WAFWrite07,
  DNSWrite08 and RAMWrite09 in the WRITE document.
\<close>

theorem suppressions_per_document:
  assumes "''*'' \<notin> set [logGroup props, sqs props, regionParamArn props, ouParamArn props,
                        tagParamArn props, bucketArn (s3Bucket props)]"
  shows "map rule_id (rules_to_suppress (readPolicy (IAMConstruct scope ident props))) = [''W12'']
   \<and> map rule_id (rules_to_suppress (writePolicy (IAMConstruct scope ident props)))
       = [''W12'', ''F4'']
   \<and> [] \<notin> set (map reason (rules_to_suppress (readPolicy (IAMConstruct scope ident props))))
   \<and> [] \<notin> set (map reason (rules_to_suppress (writePolicy (IAMConstruct scope ident props))))
   \<and> rules_to_suppress (readPolicy (IAMConstruct scope ident props))
       = rules_to_suppress (readPolicy (IAMConstruct scope' ident' props'))
   \<and> rules_to_suppress (writePolicy (IAMConstruct scope ident props))
       = rules_to_suppress (writePolicy (IAMConstruct scope' ident' props'))
   \<and> map sid (filter has_wildcard_resource
        (statements (readPolicy (IAMConstruct scope ident props))))
       = [''EC2Read0'', ''DNSRAMRead10'']
   \<and> map sid (filter has_wildcard_resource
        (statements (writePolicy (IAMConstruct scope ident props))))
       = [''WAFWrite07'', ''DNSWrite08'', ''RAMWrite09'']"
  using assms
  by (simp add: read_statements write_statements read_rules write_rules po_defs
        read_rules_to_suppress_def write_rules_to_suppress_def has_wildcard_resource_def)

text \<open>The amended law at the sample deployment: two READ statements with a wildcard
  resource share one suppression.\<close>

theorem suppressions_per_document_witness:
  "''*'' \<notin> set [logGroup example_props, sqs example_props, regionParamArn example_props,
               ouParamArn example_props, tagParamArn example_props,
               bucketArn (s3Bucket example_props)]
   \<and> map rule_id (rules_to_suppress (readPolicy (IAMConstruct ''FMSStack'' ''IAM'' example_props)))
       = [''W12'']
   \<and> map sid (filter has_wildcard_resource
        (statements (readPolicy (IAMConstruct ''FMSStack'' ''IAM'' example_props))))
       = [''EC2Read0'', ''DNSRAMRead10'']"
proof -
  have h: "''*'' \<notin> set [logGroup example_props, sqs example_props,
      regionParamArn example_props, ouParamArn example_props, tagParamArn example_props,
      bucketArn (s3Bucket example_props)]"
    by (simp add: example_props_def)
  note law = suppressions_per_document[where props = example_props and scope = "''FMSStack''"
      and ident = "''IAM''" and scope' = "''FMSStack''" and ident' = "''IAM''"
      and props' = example_props, OF h]
  from h law show ?thesis by blast
qed

section \<open>No validation of the grants\<close>




section \<open>Sids\<close>

text \<open>
  C3, as the specification states it, fails: the numbers of the READ document's
  sids are 0, 5, 6, 10, which is not a numbering without gaps.
\<close>

theorem sid_numbering_counterexample:
  "map (sid_index \<circ> sid)
      (statements (readPolicy (IAMConstruct ''FMSStack'' ''IAM'' example_props)))
     = [0, 5, 6, 10]
   \<and> \<not> no_gaps (map (sid_index \<circ> sid)
        (statements (readPolicy (IAMConstruct ''FMSStack'' ''IAM'' example_props))))"
  using grants_index[of example_props]
  by (simp add: read_statements grants_def)

text \<open>
  C3, amended. Every sid is a constant of the source, the same for all
  identifiers: a tag, the word Read or Write of the document the statement is
  added to, and a number. The number counts the statements in the order the
  constructor builds them, across both documents, from 0 to 10 (the number of the
  third statement, the Firewall Manager one, is left open). So within a document
  the numbers follow the order of the statements but have gaps: 0, 5, 6, 10 in the
  READ document.
\<close>

theorem sid_numbering:
  "map sid (grants props) = map sid (grants props')
   \<and> (\<exists>x. map (sid_index \<circ> sid) (grants props) = [0, 1, x, 3, 4, 5, 6, 7, 8, 9, 10])
   \<and> map (sid_index \<circ> sid) (statements (readPolicy (IAMConstruct scope ident props)))
       = [0, 5, 6, 10]
   \<and> (\<exists>x. map (sid_index \<circ> sid) (statements (writePolicy (IAMConstruct scope ident props)))
       = [1, x, 3, 4, 7, 8, 9])
   \<and> map accessClass (statements (readPolicy (IAMConstruct scope ident props)))
       = [Some READ, Some READ, Some READ, Some READ]
   \<and> map accessClass (statements (writePolicy (IAMConstruct scope ident props)))
       = [Some WRITE, Some WRITE, Some WRITE, Some WRITE, Some WRITE, Some WRITE, Some WRITE]"
  using grants_index[of props] grants_class[of props]
  by (simp add: read_statements write_statements grants_def) (simp add: po_defs)

text \<open>
  C4. For every scope, id and identifiers, no two statements of the READ document
  share a sid, and no two statements of the WRITE document share a sid.
\<close>

theorem sid_unique:
  "distinct (map sid (statements (readPolicy (IAMConstruct scope ident props)))) \<and>
   distinct (map sid (statements (writePolicy (IAMConstruct scope ident props))))"
  by (simp add: read_statements write_statements po_defs)

section \<open>Partition into the two documents\<close>

text \<open>
  C5. Every grant is one statement: it occurs exactly once in the document of the
  access class its sid names and not at all in the other document, and the two
  documents together have as many statements as there are grants: eleven, while
  the grants list 24 actions and 15 resources.
\<close>

theorem partition_correct:
  "(\<forall>g \<in> set (grants props).
      \<exists>c. accessClass g = Some c
        \<and> count_list (statements (document c (IAMConstruct scope ident props))) g = 1
        \<and> count_list (statements (document (other_class c) (IAMConstruct scope ident props))) g = 0)
   \<and> length (statements (readPolicy (IAMConstruct scope ident props)))
       + length (statements (writePolicy (IAMConstruct scope ident props)))
       = length (grants props)
   \<and> length (grants props) = 11
   \<and> length (concat (map actions (grants props))) = 24
   \<and> length (concat (map resources (grants props))) = 15"
  using grants_class[of props]
  apply (simp add: grants_def document_def other_class_def read_statements write_statements)
  apply (simp add: po_defs)
  done

text \<open>The DynamoDB grant of the sample deployment: once in the WRITE document, not
  in the READ document.\<close>

theorem partition_correct_witness:
  "po1 example_props \<in> set (grants example_props)
   \<and> accessClass (po1 example_props) = Some WRITE
   \<and> count_list (statements (writePolicy (IAMConstruct ''FMSStack'' ''IAM'' example_props)))
        (po1 example_props) = 1
   \<and> count_list (statements (readPolicy (IAMConstruct ''FMSStack'' ''IAM'' example_props)))
        (po1 example_props) = 0"
proof -
  let ?N = "IAMConstruct ''FMSStack'' ''IAM'' example_props"
  let ?g = "po1 example_props"
  have m: "?g \<in> set (grants example_props)"
    by (simp add: grants_def)
  have w: "accessClass ?g = Some WRITE"
    by (simp add: po1_def accessClass_def sid_stem_def is_digit_def ends_with_def)
  from partition_correct[of example_props "''FMSStack''" "''IAM''"] m
  obtain c where c: "accessClass ?g = Some c"
    and one: "count_list (statements (document c ?N)) ?g = 1"
    and none: "count_list (statements (document (other_class c) ?N)) ?g = 0"
    by blast
  from c w have "c = WRITE" by simp
  with one none have "count_list (statements (writePolicy ?N)) ?g = 1"
    and "count_list (statements (readPolicy ?N)) ?g = 0"
    by (simp_all add: document_def other_class_def)
  with m w show ?thesis by blast
qed

section \<open>Resources are built by concatenation\<close>




section \<open>The documents are a function of the identifiers; the constructor has state\<close>

text \<open>
  C7, as the specification states it, fails: the constructor is not stateless.
  Under a stack without children the construction with the id \<^verbatim>\<open>IAM\<close> and the
  sample properties returns, and leaves the construct registered in the stack; the
  second construction from the same id and properties under that stack throws and
  produces no document.
\<close>

theorem second_construction_counterexample:
  "new_IAMConstruct cdk_super root_scope ''IAM'' example_props
     = Inr (iam_scope, IAMConstruct iam_scope ''IAM'' example_props)
   \<and> iam_scope \<noteq> root_scope
   \<and> new_IAMConstruct cdk_super iam_scope ''IAM'' example_props = Inl (NameInUse ''IAM'')"
proof -
  have "iam_scope \<noteq> root_scope"
    by (simp add: iam_scope_def root_scope_def)
  then show ?thesis
    by (simp add: new_IAMConstruct_root new_IAMConstruct_Inl cdk_super_again)
qed

text \<open>
  C7, amended. The documents are a function of the identifiers alone: whenever two
  constructions return and their properties agree on the identifiers, their READ
  and WRITE documents, statements and suppressions alike, are the same, whatever
  the scopes, the ids and the roles are. The constructor is not stateless: through
  \<^verbatim>\<open>super(scope, id)\<close> it registers the construct in its scope, the construct
  stands under the scope that \<^verbatim>\<open>super\<close> returns with the id \<^verbatim>\<open>super\<close> gives it,
  and whether the construction returns is for \<^verbatim>\<open>super\<close> to decide.
\<close>

theorem documents_depend_on_identifiers_only:
  assumes "new_IAMConstruct super_ctor scope ident props = Inr (sc, N)"
    and "new_IAMConstruct super_ctor' scope' ident' props' = Inr (sc', N')"
    and "identifiers props = identifiers props'"
  shows "documents N = documents N'
    \<and> super_ctor scope ident = Inr (sc, node_id N) \<and> node_scope N = sc"
proof -
  from assms(1) obtain i where i: "super_ctor scope ident = Inr (sc, i)"
    and n: "N = IAMConstruct sc i props"
    by (auto simp add: new_IAMConstruct_Inr)
  from assms(2) obtain i' where n': "N' = IAMConstruct sc' i' props'"
    by (auto simp add: new_IAMConstruct_Inr)
  have "documents N = documents N'"
    unfolding n n' by (rule documents_of_body[OF assms(3)])
  moreover have "node_id N = i" and "node_scope N = sc"
    by (simp_all add: n IAMConstruct_def Let_def)
  ultimately show ?thesis using i by simp
qed

text \<open>Two stacks, two construct ids and two roles, the same identifiers: the same
  documents.\<close>

theorem documents_depend_on_identifiers_only_witness:
  "new_IAMConstruct cdk_super root_scope ''IAM'' example_props
     = Inr (iam_scope, IAMConstruct iam_scope ''IAM'' example_props)
   \<and> new_IAMConstruct cdk_super iam_scope ''FMS/Iam'' other_role_props
     = Inr (\<lparr>children = [''IAM'', ''FMS--Iam'']\<rparr>,
            IAMConstruct \<lparr>children = [''IAM'', ''FMS--Iam'']\<rparr> ''FMS--Iam'' other_role_props)
   \<and> identifiers example_props = identifiers other_role_props
   \<and> example_props \<noteq> other_role_props
   \<and> documents (IAMConstruct iam_scope ''IAM'' example_props)
       = documents (IAMConstruct \<lparr>children = [''IAM'', ''FMS--Iam'']\<rparr> ''FMS--Iam''
            other_role_props)"
proof -
  have a: "new_IAMConstruct cdk_super root_scope ''IAM'' example_props
             = Inr (iam_scope, IAMConstruct iam_scope ''IAM'' example_props)"
    by (rule new_IAMConstruct_root)
  have b: "new_IAMConstruct cdk_super iam_scope ''FMS/Iam'' other_role_props
     = Inr (\<lparr>children = [''IAM'', ''FMS--Iam'']\<rparr>,
            IAMConstruct \<lparr>children = [''IAM'', ''FMS--Iam'']\<rparr> ''FMS--Iam'' other_role_props)"
    by (simp add: new_IAMConstruct_def cdk_super_def iam_scope_def sanitizeId_def)
  have h: "identifiers example_props = identifiers other_role_props"
    by (simp add: identifiers_def other_role_props_def)
  have d: "example_props \<noteq> other_role_props"
    by (simp add: example_props_def other_role_props_def)
  from a b h d documents_depend_on_identifiers_only[OF a b h]
  show ?thesis by blast
qed

section \<open>What a statement carries\<close>

text \<open>
  C8. Every statement of either document has the effect ALLOW, none has DENY; the
  only statement with conditions is RAMWrite09, whose condition is StringEquals on
  \<^verbatim>\<open>aws:ResourceTag/FMManaged\<close> with the value \<^verbatim>\<open>true\<close>; and each statement has
  exactly the actions of its grant and the resources of its grant with the
  identifiers put in.
\<close>

theorem statement_content:
  "(\<forall>s \<in> set (statements (readPolicy (IAMConstruct scope ident props))
              @ statements (writePolicy (IAMConstruct scope ident props))).
      effect s = ALLOW \<and> effect s \<noteq> DENY
      \<and> conditions s =
          (if sid s = ''RAMWrite09''
           then Some [(''StringEquals'', [(''aws:ResourceTag/FMManaged'', ''true'')])]
           else None))
   \<and> map (\<lambda>s. (sid s, actions s, resources s))
        (statements (readPolicy (IAMConstruct scope ident props))) =
      [(''EC2Read0'', [''ec2:DescribeRegions''], [''*'']),
       (''SSMRead05'', [''ssm:GetParameter''],
          [regionParamArn props, ouParamArn props, tagParamArn props]),
       (''S3Read06'', [''s3:GetObject''],
          [bucketArn (s3Bucket props), bucketArn (s3Bucket props) @ ''/*'']),
       (''DNSRAMRead10'',
          [''route53resolver:ListFirewallDomainLists'',
           ''route53resolver:ListFirewallRuleGroups'', ''ram:ListResources''],
          [''*''])]
   \<and> map (\<lambda>s. (sid s, actions s, resources s))
        (statements (writePolicy (IAMConstruct scope ident props))) =
      [(''DDBWrite01'',
          [''dynamodb:GetItem'', ''dynamodb:UpdateItem'', ''dynamodb:DeleteItem''],
          [''arn:aws:dynamodb:'' @ region props @ '':'' @ accountId props
             @ '':table/'' @ policyTable props]),
       (''FMSWrite021'', [''fms:PutPolicy'', ''fms:DeletePolicy''],
          [''arn:aws:fms:*:*:policy/*'']),
       (''CloudWatchLogsWrite03'',
          [''logs:CreateLogStream'', ''logs:PutLogEvents'', ''logs:CreateLogGroup''],
          [logGroup props]),
       (''SQSWrite04'', [''sqs:SendMessage''],
          [sqs props,
           ''arn:aws:sqs:'' @ region props @ '':'' @ accountId props @ '':''
             @ metricsQueue props]),
       (''WAFWrite07'', [''wafv2:*'', ''shield:GetSubscriptionState''], [''*'']),
       (''DNSWrite08'',
          [''route53resolver:CreateFirewallRule'', ''route53resolver:CreateFirewallRuleGroup'',
           ''route53resolver:DeleteFirewallRuleGroup'', ''route53resolver:ListFirewallRules'',
           ''route53resolver:DeleteFirewallRule'', ''route53resolver:GetFirewallRuleGroup''],
          [''*'']),
       (''RAMWrite09'', [''ram:DeleteResourceShare''], [''*''])]"
  by (simp add: read_statements write_statements po_defs)

text \<open>The RAM statement of the sample deployment.\<close>

theorem statement_content_witness:
  "po9 \<in> set (statements (writePolicy (IAMConstruct ''FMSStack'' ''IAM'' example_props)))
   \<and> sid po9 = ''RAMWrite09''
   \<and> effect po9 = ALLOW
   \<and> conditions po9 = Some [(''StringEquals'', [(''aws:ResourceTag/FMManaged'', ''true'')])]"
proof -
  let ?N = "IAMConstruct ''FMSStack'' ''IAM'' example_props"
  have m: "po9 \<in> set (statements (readPolicy ?N) @ statements (writePolicy ?N))"
    and w: "po9 \<in> set (statements (writePolicy ?N))"
    by (simp_all add: write_statements)
  have n: "sid po9 = ''RAMWrite09''"
    by (simp add: po9_def)
  from statement_content[of "''FMSStack''" "''IAM''" example_props] m
  have "effect po9 = ALLOW \<and> conditions po9 =
          (if sid po9 = ''RAMWrite09''
           then Some [(''StringEquals'', [(''aws:ResourceTag/FMManaged'', ''true'')])]
           else None)"
    by blast
  with n w show ?thesis by simp
qed

section \<open>The suppression of the wildcard action\<close>

text \<open>
  C9. The suppressions of the WRITE document are always the W12 pair followed by a
  pair with rule F4 and the reason that read and write permissions are needed to
  create WAFv2 policies; the WRITE document has a statement with the wildcard
  action \<^verbatim>\<open>wafv2:*\<close>; the READ document has no F4 pair.
\<close>

theorem write_suppresses_wildcard_action:
  "rules_to_suppress (writePolicy (IAMConstruct scope ident props)) =
     [\<lparr>rule_id = ''W12'',
       reason = ''* resource used for fms and route53resolver actions, resources are created/deleted as part of solution''\<rparr>,
      \<lparr>rule_id = ''F4'',
       reason = ''Read & Write permissions needed to create WAFv2 policies''\<rparr>]
   \<and> ''wafv2:*'' \<in> set (concat (map actions (statements (writePolicy (IAMConstruct scope ident props)))))
   \<and> ''F4'' \<notin> set (map rule_id (rules_to_suppress (readPolicy (IAMConstruct scope ident props))))"
  by (simp add: read_statements write_statements read_rules write_rules po_defs
        read_rules_to_suppress_def write_rules_to_suppress_def)

section \<open>The identifiers reach the resources only\<close>

text \<open>
  C10. For any two scopes, ids and identifier records, the READ documents have
  four statements and the WRITE documents seven; apart from the resource strings
  the statements are the same in the same order (sid, effect, actions,
  conditions), each statement has the same number of resources, and the
  suppressions are the same.
\<close>

theorem structure_independent_of_identifiers:
  "map without_resources (statements (readPolicy (IAMConstruct scope ident props)))
     = map without_resources (statements (readPolicy (IAMConstruct scope' ident' props')))
   \<and> map without_resources (statements (writePolicy (IAMConstruct scope ident props)))
     = map without_resources (statements (writePolicy (IAMConstruct scope' ident' props')))
   \<and> length (statements (readPolicy (IAMConstruct scope ident props))) = 4
   \<and> length (statements (writePolicy (IAMConstruct scope ident props))) = 7
   \<and> map (length \<circ> resources) (statements (readPolicy (IAMConstruct scope ident props)))
     = map (length \<circ> resources) (statements (readPolicy (IAMConstruct scope' ident' props')))
   \<and> map (length \<circ> resources) (statements (writePolicy (IAMConstruct scope ident props)))
     = map (length \<circ> resources) (statements (writePolicy (IAMConstruct scope' ident' props')))
   \<and> rules_to_suppress (readPolicy (IAMConstruct scope ident props))
     = rules_to_suppress (readPolicy (IAMConstruct scope' ident' props'))
   \<and> rules_to_suppress (writePolicy (IAMConstruct scope ident props))
     = rules_to_suppress (writePolicy (IAMConstruct scope' ident' props'))"
  by (simp add: read_statements write_statements read_rules write_rules po_defs
        without_resources_def)

end
